theory Spec2Isabelle
  imports Main "HOL-Library.AList"
begin

section \<open>Announcements router of the High School Management System API\<close>

text \<open>
  A shallow embedding of \<^verbatim>\<open>src/backend/routers/announcements.py\<close>: the five request
  handlers \<^verbatim>\<open>get_active_announcements\<close>, \<^verbatim>\<open>get_all_announcements\<close>,
  \<^verbatim>\<open>create_announcement\<close>, \<^verbatim>\<open>update_announcement\<close> and \<^verbatim>\<open>delete_announcement\<close>.
  Every handler is a function from the request parameters and the database to a result
  (an \<open>error\<close> for each \<^verbatim>\<open>raise HTTPException\<close>) and the database after the call.
  The clock (\<^verbatim>\<open>datetime.now()\<close>) and the identifier the driver generates for an inserted
  document are inputs of the handlers.
\<close>

subsection \<open>Values, documents and Python truthiness\<close>

text \<open>
  The handlers read and write only strings and \<^verbatim>\<open>None\<close>; \<open>VNull\<close> is Python's
  \<^verbatim>\<open>None\<close> and BSON's null. A document is a dict: keys in insertion order, a key
  occurring once. A key that is absent is different from a key whose value is null.
\<close>

datatype val = VNull | VStr string

type_synonym document = "(string \<times> val) list"

text \<open>\<^verbatim>\<open>d.get(k)\<close>: the value, or \<^verbatim>\<open>None\<close> when the key is absent.\<close>

definition get :: "document \<Rightarrow> string \<Rightarrow> val" where
  "get d k = (case map_of d k of None \<Rightarrow> VNull | Some v \<Rightarrow> v)"

text \<open>\<^verbatim>\<open>k in d\<close>.\<close>

definition has_key :: "document \<Rightarrow> string \<Rightarrow> bool" where
  "has_key d k \<longleftrightarrow> map_of d k \<noteq> None"

text \<open>Truth value of an \<^verbatim>\<open>Optional[str]\<close>: \<^verbatim>\<open>None\<close> and the empty string are false.\<close>

fun truthy :: "val \<Rightarrow> bool" where
  "truthy VNull = False"
| "truthy (VStr s) = (s \<noteq> [])"

text \<open>A request parameter of type \<^verbatim>\<open>Optional[str]\<close> with default \<^verbatim>\<open>None\<close>.\<close>

fun param :: "string option \<Rightarrow> val" where
  "param None = VNull"
| "param (Some s) = VStr s"

text \<open>\<^verbatim>\<open>a or b\<close>.\<close>

definition py_or :: "val \<Rightarrow> val \<Rightarrow> val" where
  "py_or a b = (if truthy a then a else b)"

subsection \<open>\<^verbatim>\<open>datetime.strptime(s, "%Y-%m-%d")\<close>\<close>

text \<open>
  The standard library turns the format into the regular expression
  \<^verbatim>\<open>(?P<Y>\d\d\d\d)-(?P<m>1[0-2]|0[1-9]|[1-9])-(?P<d>3[0-1]|[1-2]\d|0[1-9]|[1-9]| [1-9])\<close>,
  raises \<^verbatim>\<open>ValueError\<close> when the string does not match or when text remains after the
  match, and then builds the date, which raises \<^verbatim>\<open>ValueError\<close> for the year 0 and for a
  day the month does not have. \<open>None\<close> is the \<^verbatim>\<open>ValueError\<close>. The result is the date as
  (year, month, day); the time of day is always midnight.
\<close>

type_synonym date = "nat \<times> nat \<times> nat"

definition is_digit :: "char \<Rightarrow> bool" where
  "is_digit c \<longleftrightarrow> (48::nat) \<le> of_char c \<and> of_char c \<le> (57::nat)"

definition digit :: "char \<Rightarrow> nat" where
  "digit c = of_char c - 48"

text \<open>Group \<^verbatim>\<open>Y\<close>: exactly four digits.\<close>

fun year_field :: "string \<Rightarrow> nat option" where
  "year_field [a, b, c, d] =
     (if is_digit a \<and> is_digit b \<and> is_digit c \<and> is_digit d
      then Some (1000 * digit a + 100 * digit b + 10 * digit c + digit d) else None)"
| "year_field _ = None"

text \<open>Group \<^verbatim>\<open>m\<close>: \<^verbatim>\<open>1[0-2]|0[1-9]|[1-9]\<close>.\<close>

fun month_field :: "string \<Rightarrow> nat option" where
  "month_field [a, b] =
     (if a = CHR ''1'' \<and> is_digit b \<and> digit b \<le> 2 then Some (10 + digit b)
      else if a = CHR ''0'' \<and> is_digit b \<and> 1 \<le> digit b then Some (digit b)
      else None)"
| "month_field [a] = (if is_digit a \<and> 1 \<le> digit a then Some (digit a) else None)"
| "month_field _ = None"

text \<open>Group \<^verbatim>\<open>d\<close>: \<^verbatim>\<open>3[0-1]|[1-2]\d|0[1-9]|[1-9]| [1-9]\<close>.\<close>

fun day_field :: "string \<Rightarrow> nat option" where
  "day_field [a, b] =
     (if a = CHR ''3'' \<and> is_digit b \<and> digit b \<le> 1 then Some (30 + digit b)
      else if (a = CHR ''1'' \<or> a = CHR ''2'') \<and> is_digit b then Some (10 * digit a + digit b)
      else if (a = CHR ''0'' \<or> a = CHR '' '') \<and> is_digit b \<and> 1 \<le> digit b then Some (digit b)
      else None)"
| "day_field [a] = (if is_digit a \<and> 1 \<le> digit a then Some (digit a) else None)"
| "day_field _ = None"

definition is_leap :: "nat \<Rightarrow> bool" where
  "is_leap y \<longleftrightarrow> y mod 4 = 0 \<and> (y mod 100 \<noteq> 0 \<or> y mod 400 = 0)"

definition days_in_month :: "nat \<Rightarrow> nat \<Rightarrow> nat" where
  "days_in_month y m =
     (if m = 2 then (if is_leap y then 29 else 28)
      else if m = 4 \<or> m = 6 \<or> m = 9 \<or> m = 11 then 30 else 31)"

text \<open>
  The month group holds no hyphen and is followed by one, so it is the text between the
  first and the second hyphen; the day group is everything after the second hyphen.
\<close>

definition strptime :: "string \<Rightarrow> date option" where
  "strptime s =
     (if length s < 5 \<or> s ! 4 \<noteq> CHR ''-'' then None
      else let rest = drop 5 s;
               ms = takeWhile (\<lambda>c. c \<noteq> CHR ''-'') rest;
               ds = drop (Suc (length ms)) rest
           in if length rest \<le> length ms then None
              else case (year_field (take 4 s), month_field ms, day_field ds) of
                     (Some y, Some m, Some d) \<Rightarrow>
                        if 1 \<le> y \<and> d \<le> days_in_month y m then Some (y, m, d) else None
                   | _ \<Rightarrow> None)"

text \<open>\<^verbatim>\<open>a > b\<close> on two datetimes at midnight.\<close>

fun date_gt :: "date \<Rightarrow> date \<Rightarrow> bool" where
  "date_gt (y, m, d) (y', m', d') \<longleftrightarrow> y > y' \<or> (y = y' \<and> (m > m' \<or> (m = m' \<and> d > d')))"

subsection \<open>The document store\<close>

text \<open>
  The order MongoDB gives two strings (its default binary comparison): by character code,
  a proper prefix first.
\<close>

fun str_le :: "string \<Rightarrow> string \<Rightarrow> bool" where
  "str_le [] _ = True"
| "str_le (_ # _) [] = False"
| "str_le (a # as) (b # bs) =
     ((of_char a :: nat) < of_char b \<or> (a = b \<and> str_le as bs))"

text \<open>
  The query operators the handlers use. \<^verbatim>\<open>{"$exists": False}\<close> matches a document that
  does not contain the field; a field holding null is contained. \<^verbatim>\<open>$lte\<close> and \<^verbatim>\<open>$gte\<close>
  against a string match only a field that holds a string.
\<close>

datatype cond = QExists bool | QLte string | QGte string

datatype query = QField string cond | QOr query query | QAnd query query

fun holds :: "cond \<Rightarrow> val option \<Rightarrow> bool" where
  "holds (QExists b) v = ((v \<noteq> None) = b)"
| "holds (QLte t) (Some (VStr s)) = str_le s t"
| "holds (QLte t) _ = False"
| "holds (QGte t) (Some (VStr s)) = str_le t s"
| "holds (QGte t) _ = False"

fun matches :: "query \<Rightarrow> document \<Rightarrow> bool" where
  "matches (QField k c) d = holds c (map_of d k)"
| "matches (QOr p q) d = (matches p d \<or> matches q d)"
| "matches (QAnd p q) d = (matches p d \<and> matches q d)"

text \<open>An \<^verbatim>\<open>ObjectId\<close> is kept as its 24 lower-case hexadecimal digits.\<close>

type_synonym oid = string

datatype store_call = Find | FindOne oid | InsertOne oid | UpdateOne oid | DeleteOne oid

text \<open>
  The database: the announcements collection (identifier and document, in the store's
  natural order), the identifiers of the teachers collection, and the calls made on the
  announcements collection so far (kept to tell whether a handler touched it).
\<close>

record db =
  announcements :: "(oid \<times> document) list"
  teachers :: "string list"
  calls :: "store_call list"

definition called :: "store_call \<Rightarrow> db \<Rightarrow> db" where
  "called c s = s\<lparr>calls := calls s @ [c]\<rparr>"

text \<open>\<^verbatim>\<open>announcements_collection.find(q)\<close> and \<^verbatim>\<open>find()\<close>.\<close>

definition find_many :: "query option \<Rightarrow> db \<Rightarrow> (oid \<times> document) list \<times> db" where
  "find_many q s =
     ((case q of None \<Rightarrow> announcements s
       | Some p \<Rightarrow> filter (\<lambda>(i, d). matches p d) (announcements s)),
      called Find s)"

text \<open>\<^verbatim>\<open>announcements_collection.find_one({"_id": i})\<close>.\<close>

definition find_one :: "oid \<Rightarrow> db \<Rightarrow> document option \<times> db" where
  "find_one i s = (map_of (announcements s) i, called (FindOne i) s)"

text \<open>
  \<^verbatim>\<open>announcements_collection.insert_one(doc)\<close> with the identifier \<open>i\<close> the driver
  generated; an identifier already in the collection is the driver's duplicate-key error.
\<close>

definition insert_one :: "oid \<Rightarrow> document \<Rightarrow> db \<Rightarrow> bool \<times> db" where
  "insert_one i d s =
     (if map_of (announcements s) i \<noteq> None then (False, called (InsertOne i) s)
      else (True, called (InsertOne i) (s\<lparr>announcements := announcements s @ [(i, d)]\<rparr>)))"

text \<open>\<^verbatim>\<open>$set\<close>: each pair replaces the field's value in place, or appends the field.\<close>

definition set_fields :: "document \<Rightarrow> document \<Rightarrow> document" where
  "set_fields upd d = fold (\<lambda>(k, v). AList.update k v) upd d"

text \<open>
  \<^verbatim>\<open>announcements_collection.update_one({"_id": i}, {"$set": upd})\<close>; the first
  component is \<^verbatim>\<open>modified_count\<close>: 0 when no document matches or when the matched
  document already holds every value of \<open>upd\<close>.
\<close>

definition update_one :: "oid \<Rightarrow> document \<Rightarrow> db \<Rightarrow> nat \<times> db" where
  "update_one i upd s =
     (case map_of (announcements s) i of
        None \<Rightarrow> (0, called (UpdateOne i) s)
      | Some d \<Rightarrow>
          (if set_fields upd d = d then 0 else 1,
           called (UpdateOne i)
             (s\<lparr>announcements := AList.update i (set_fields upd d) (announcements s)\<rparr>)))"

text \<open>\<^verbatim>\<open>announcements_collection.delete_one({"_id": i})\<close>; the first component is
  \<^verbatim>\<open>deleted_count\<close>.\<close>

definition delete_one :: "oid \<Rightarrow> db \<Rightarrow> nat \<times> db" where
  "delete_one i s =
     (case map_of (announcements s) i of
        None \<Rightarrow> (0, called (DeleteOne i) s)
      | Some d \<Rightarrow>
          (1, called (DeleteOne i) (s\<lparr>announcements := AList.delete i (announcements s)\<rparr>)))"

text \<open>
  \<^verbatim>\<open>ObjectId(announcement_id)\<close> for a string: 24 hexadecimal digits, else the
  constructor raises (\<open>None\<close>).
\<close>

definition is_hex :: "char \<Rightarrow> bool" where
  "is_hex c \<longleftrightarrow> c \<in> set ''0123456789abcdefABCDEF''"

definition lower :: "char \<Rightarrow> char" where
  "lower c = (if (65::nat) \<le> of_char c \<and> of_char c \<le> (70::nat)
              then char_of (of_char c + (32::nat)) else c)"

definition ObjectId :: "string \<Rightarrow> oid option" where
  "ObjectId a = (if length a = 24 \<and> list_all is_hex a then Some (map lower a) else None)"

subsection \<open>The handlers\<close>

text \<open>
  The errors of the handlers, by status code and detail:
  \<open>Unauthenticated\<close> 401 "Authentication required";
  \<open>InvalidCredentials\<close> 401 "Invalid credentials";
  \<open>InvalidId\<close> 400 "Invalid announcement ID";
  \<open>NotFound\<close> 404 "Announcement not found";
  \<open>InvalidDateFormat\<close> 400 "Invalid date format. Use YYYY-MM-DD" (and its two variants
  naming the field in update);
  \<open>InvalidDateRange\<close> 400 "Start date cannot be after expiration date";
  \<open>UpdateFailed\<close> 500 "Failed to update announcement";
  \<open>DuplicateKey\<close> the driver's error on inserting an identifier twice;
  \<open>TypeError\<close> Python's error on subscripting \<^verbatim>\<open>None\<close>.
\<close>

datatype error =
    Unauthenticated | InvalidCredentials | InvalidId | NotFound
  | InvalidDateFormat | InvalidDateRange | UpdateFailed | DuplicateKey | TypeError

text \<open>
  The first lines of every handler but the public one:
  \<^verbatim>\<open>if not username: raise 401\<close>, then \<^verbatim>\<open>teachers_collection.find_one({"_id": username})\<close>
  and \<^verbatim>\<open>if not teacher: raise 401\<close>.
\<close>

definition verify_teacher :: "string option \<Rightarrow> db \<Rightarrow> error option" where
  "verify_teacher username s =
     (if \<not> truthy (param username) then Some Unauthenticated
      else if the username \<notin> set (teachers s) then Some InvalidCredentials
      else None)"

definition active_query :: "string \<Rightarrow> query" where
  "active_query today =
     QAnd (QOr (QField ''start_date'' (QExists False)) (QField ''start_date'' (QLte today)))
          (QField ''expiration_date'' (QGte today))"

text \<open>\<open>today\<close> is \<^verbatim>\<open>datetime.now().strftime("%Y-%m-%d")\<close>.\<close>

definition get_active_announcements :: "string \<Rightarrow> db \<Rightarrow> (oid \<times> document) list \<times> db" where
  "get_active_announcements today s = find_many (Some (active_query today)) s"

definition get_all_announcements ::
  "string option \<Rightarrow> db \<Rightarrow> (error + (oid \<times> document) list) \<times> db" where
  "get_all_announcements username s =
     (case verify_teacher username s of
        Some e \<Rightarrow> (Inl e, s)
      | None \<Rightarrow> (let (r, s') = find_many None s in (Inr r, s')))"

text \<open>
  \<open>now\<close> is \<^verbatim>\<open>datetime.now().isoformat()\<close>, \<open>new_id\<close> the identifier the driver
  generates. \<open>None\<close> from \<open>check_dates\<close> means the \<^verbatim>\<open>try\<close> block raised nothing.
\<close>

definition check_dates :: "string \<Rightarrow> string option \<Rightarrow> error option" where
  "check_dates expiration_date start_date =
     (case strptime expiration_date of
        None \<Rightarrow> Some InvalidDateFormat
      | Some exp_date \<Rightarrow>
          (if truthy (param start_date) then
             (case strptime (the start_date) of
                None \<Rightarrow> Some InvalidDateFormat
              | Some start \<Rightarrow> if date_gt start exp_date then Some InvalidDateRange else None)
           else None))"

definition new_announcement ::
  "string \<Rightarrow> string \<Rightarrow> string \<Rightarrow> string option \<Rightarrow> string \<Rightarrow> string \<Rightarrow> document" where
  "new_announcement title message expiration_date start_date username now =
     [(''title'', VStr title),
      (''message'', VStr message),
      (''expiration_date'', VStr expiration_date),
      (''start_date'', param start_date),
      (''created_by'', VStr username),
      (''created_at'', VStr now)]"

definition create_announcement ::
  "oid \<Rightarrow> string \<Rightarrow> string \<Rightarrow> string \<Rightarrow> string \<Rightarrow> string option \<Rightarrow> string option \<Rightarrow> db
     \<Rightarrow> (error + oid \<times> document) \<times> db" where
  "create_announcement new_id now title message expiration_date start_date username s =
     (case verify_teacher username s of
        Some e \<Rightarrow> (Inl e, s)
      | None \<Rightarrow>
          (case check_dates expiration_date start_date of
             Some e \<Rightarrow> (Inl e, s)
           | None \<Rightarrow>
               (let announcement =
                      new_announcement title message expiration_date start_date
                        (the username) now;
                    (ok, s') = insert_one new_id announcement s
                in if ok then (Inr (new_id, announcement), s') else (Inl DuplicateKey, s'))))"

text \<open>
  The \<^verbatim>\<open>update_data\<close> dict of \<^verbatim>\<open>update_announcement\<close>, built field by field; \<open>Inl\<close> is
  the error raised on the way. A parameter that is \<^verbatim>\<open>None\<close> or empty leaves title,
  message and expiration_date out; \<^verbatim>\<open>start_date\<close> is left out only when it is \<^verbatim>\<open>None\<close>,
  and the empty string stores \<^verbatim>\<open>None\<close>.
\<close>

definition build_update ::
  "string option \<Rightarrow> string option \<Rightarrow> string option \<Rightarrow> string option \<Rightarrow> error + document" where
  "build_update title message expiration_date start_date =
     (let u1 = (if truthy (param title) then [(''title'', param title)] else []);
          u2 = u1 @ (if truthy (param message) then [(''message'', param message)] else [])
      in if truthy (param expiration_date) \<and> strptime (the expiration_date) = None
         then Inl InvalidDateFormat
         else
           let u3 = u2 @ (if truthy (param expiration_date)
                          then [(''expiration_date'', param expiration_date)] else [])
           in case start_date of
                None \<Rightarrow> Inr u3
              | Some sd \<Rightarrow>
                  if sd \<noteq> [] then
                    (if strptime sd = None then Inl InvalidDateFormat
                     else Inr (u3 @ [(''start_date'', VStr sd)]))
                  else Inr (u3 @ [(''start_date'', VNull)]))"

text \<open>
  The block under "Validate dates if both are provided"; \<open>True\<close> means the handler
  raises \<open>InvalidDateRange\<close>. A \<^verbatim>\<open>ValueError\<close> of either \<^verbatim>\<open>strptime\<close> is passed over.
\<close>

definition range_violation :: "document \<Rightarrow> document \<Rightarrow> bool" where
  "range_violation update_data announcement =
     (if has_key update_data ''start_date'' \<or> has_key update_data ''expiration_date'' then
        (let start = py_or (get update_data ''start_date'') (get announcement ''start_date'');
             exp = py_or (get update_data ''expiration_date'') (get announcement ''expiration_date'')
         in case (start, exp) of
              (VStr a, VStr b) \<Rightarrow>
                 (if a \<noteq> [] \<and> b \<noteq> [] then
                    (case strptime a of
                       None \<Rightarrow> False
                     | Some start_dt \<Rightarrow>
                         (case strptime b of
                            None \<Rightarrow> False
                          | Some exp_dt \<Rightarrow> date_gt start_dt exp_dt))
                  else False)
            | _ \<Rightarrow> False)
      else False)"

definition update_announcement ::
  "string \<Rightarrow> string \<Rightarrow> string option \<Rightarrow> string option \<Rightarrow> string option \<Rightarrow> string option
     \<Rightarrow> string option \<Rightarrow> db \<Rightarrow> (error + oid \<times> document) \<times> db" where
  "update_announcement now announcement_id title message expiration_date start_date username s =
     (case verify_teacher username s of
        Some e \<Rightarrow> (Inl e, s)
      | None \<Rightarrow>
          (case ObjectId announcement_id of
             None \<Rightarrow> (Inl InvalidId, s)
           | Some obj_id \<Rightarrow>
               (case find_one obj_id s of
                  (None, s1) \<Rightarrow> (Inl NotFound, s1)
                | (Some announcement, s1) \<Rightarrow>
                    (case build_update title message expiration_date start_date of
                       Inl e \<Rightarrow> (Inl e, s1)
                     | Inr update_data \<Rightarrow>
                         if range_violation update_data announcement
                         then (Inl InvalidDateRange, s1)
                         else
                           (case update_one obj_id
                                   (update_data @ [(''updated_at'', VStr now)]) s1 of
                              (modified_count, s2) \<Rightarrow>
                                if modified_count = 0 then (Inl UpdateFailed, s2)
                                else
                                  (case find_one obj_id s2 of
                                     (Some updated, s3) \<Rightarrow> (Inr (obj_id, updated), s3)
                                   | (None, s3) \<Rightarrow> (Inl TypeError, s3)))))))"

definition delete_announcement ::
  "string \<Rightarrow> string option \<Rightarrow> db \<Rightarrow> (error + unit) \<times> db" where
  "delete_announcement announcement_id username s =
     (case verify_teacher username s of
        Some e \<Rightarrow> (Inl e, s)
      | None \<Rightarrow>
          (case ObjectId announcement_id of
             None \<Rightarrow> (Inl InvalidId, s)
           | Some obj_id \<Rightarrow>
               (case delete_one obj_id s of
                  (deleted_count, s1) \<Rightarrow>
                    if deleted_count = 0 then (Inl NotFound, s1) else (Inr (), s1))))"

text \<open>The database after \<^verbatim>\<open>find_one\<close> and \<^verbatim>\<open>update_one\<close> have run on document \<open>i\<close>.\<close>

definition written :: "oid \<Rightarrow> document \<Rightarrow> db \<Rightarrow> db" where
  "written i d' s =
     called (UpdateOne i)
       ((called (FindOne i) s)\<lparr>announcements := AList.update i d' (announcements s)\<rparr>)"

subsection \<open>Example databases\<close>

definition db0 :: db where
  "db0 = \<lparr>announcements = [], teachers = [''ms_jones''], calls = []\<rparr>"

definition oid1 :: oid where
  "oid1 = ''0123456789abcdef01234567''"

definition doc1 :: document where
  "doc1 = [(''title'', VStr ''Exam Week''),
           (''message'', VStr ''Finals start Monday''),
           (''expiration_date'', VStr ''2025-12-31''),
           (''start_date'', VStr ''2025-06-01''),
           (''created_by'', VStr ''ms_jones''),
           (''created_at'', VStr ''2025-05-01T09:00:00'')]"

definition db1 :: db where
  "db1 = \<lparr>announcements = [(oid1, doc1)], teachers = [''ms_jones''], calls = []\<rparr>"

definition oid2 :: oid where
  "oid2 = ''ffffffffffffffffffffffff''"

text \<open>\<open>db1\<close> after its announcement was deleted.\<close>

definition db1_deleted :: db where
  "db1_deleted = \<lparr>announcements = [], teachers = [''ms_jones''], calls = [DeleteOne oid1]\<rparr>"

text \<open>\<open>doc1\<close> after an update at 2025-05-02T08:00:00.\<close>

definition doc2 :: document where
  "doc2 = doc1 @ [(''updated_at'', VStr ''2025-05-02T08:00:00'')]"

definition db2 :: db where
  "db2 = \<lparr>announcements = [(oid1, doc2)], teachers = [''ms_jones''], calls = []\<rparr>"

text \<open>\<open>db0\<close> after \<open>doc1\<close> was created in it.\<close>

definition db1_created :: db where
  "db1_created = \<lparr>announcements = [(oid1, doc1)], teachers = [''ms_jones''],
                   calls = [InsertOne oid1]\<rparr>"

text \<open>\<open>doc1\<close> and \<open>db1\<close> after an update of the message at 2025-06-15T12:00:00.\<close>

definition doc1_updated :: document where
  "doc1_updated = [(''title'', VStr ''Exam Week''),
           (''message'', VStr ''Finals start Tuesday''),
           (''expiration_date'', VStr ''2025-12-31''),
           (''start_date'', VStr ''2025-06-01''),
           (''created_by'', VStr ''ms_jones''),
           (''created_at'', VStr ''2025-05-01T09:00:00''),
           (''updated_at'', VStr ''2025-06-15T12:00:00'')]"

definition db1_updated :: db where
  "db1_updated = \<lparr>announcements = [(oid1, doc1_updated)], teachers = [''ms_jones''],
                   calls = [FindOne oid1, UpdateOne oid1, FindOne oid1]\<rparr>"

subsection \<open>The range rule of update in the words of the specification\<close>

text \<open>
  The effective value of a date field that an update does not clear: the supplied value
  when one is supplied (present and not empty), else the value read from the existing
  document.
\<close>

definition effective :: "string option \<Rightarrow> val \<Rightarrow> val" where
  "effective supplied stored =
     (case supplied of None \<Rightarrow> stored | Some x \<Rightarrow> if x = [] then stored else VStr x)"

text \<open>
  The start date is after the expiration date: both values are strings that parse, and
  the first date is the later one.
\<close>

definition later :: "val \<Rightarrow> val \<Rightarrow> bool" where
  "later a b =
     (case (a, b) of
        (VStr x, VStr y) \<Rightarrow>
          (case (strptime x, strptime y) of (Some p, Some q) \<Rightarrow> date_gt p q | _ \<Rightarrow> False)
      | _ \<Rightarrow> False)"

section \<open>Properties\<close>

subsection \<open>The store and the steps of update\<close>

lemma strptime_Nil: "strptime [] = None"
  by (simp add: strptime_def)

lemma map_of_set_fields:
  "map_of (set_fields upd d) k =
     (case map_of (rev upd) k of None \<Rightarrow> map_of d k | Some v \<Rightarrow> Some v)"
proof (induction upd arbitrary: d)
  case Nil
  then show ?case by (simp add: set_fields_def)
next
  case (Cons p upd)
  obtain a b where p: "p = (a, b)" by (cases p)
  have "map_of (set_fields (p # upd) d) k = map_of (set_fields upd (AList.update a b d)) k"
    by (simp add: set_fields_def p)
  also have "\<dots> = (case map_of (rev upd) k of
                       None \<Rightarrow> map_of (AList.update a b d) k | Some v \<Rightarrow> Some v)"
    by (rule Cons.IH)
  finally show ?case
    by (simp add: p update_conv' map_add_def split: option.splits)
qed

lemma set_fields_append: "set_fields (u @ v) d = set_fields v (set_fields u d)"
  by (simp add: set_fields_def)

lemma set_fields_single: "set_fields [(k, v)] d = AList.update k v d"
  by (simp add: set_fields_def)

lemma get_stamped:
  "get (set_fields (u @ [(''updated_at'', VStr now)]) d) ''updated_at'' = VStr now"
  by (simp add: get_def set_fields_append set_fields_single update_conv')

lemma announcements_written [simp]:
  "announcements (written i d' s) = AList.update i d' (announcements s)"
  by (simp add: written_def called_def)

lemma announcements_called [simp]: "announcements (called c s) = announcements s"
  by (simp add: called_def)

lemma teachers_called [simp]: "teachers (called c s) = teachers s"
  by (simp add: called_def)

lemma teachers_written [simp]: "teachers (written i d' s) = teachers s"
  by (simp add: written_def called_def)

lemma verify_teacher_cases:
  "verify_teacher username s =
     (if username = None \<or> username = Some [] then Some Unauthenticated
      else if the username \<notin> set (teachers s) then Some InvalidCredentials else None)"
  by (cases username) (auto simp: verify_teacher_def)

lemma handlers_stop_at_gate:
  assumes "verify_teacher username s = Some e"
  shows "get_all_announcements username s = (Inl e, s)"
    and "create_announcement new_id now title message expiration_date start_date username s
           = (Inl e, s)"
    and "update_announcement now announcement_id title' message' expiration_date' start_date'
           username s = (Inl e, s)"
    and "delete_announcement announcement_id username s = (Inl e, s)"
  using assms
  by (simp_all add: get_all_announcements_def create_announcement_def update_announcement_def
      delete_announcement_def)

text \<open>Past the three gates and the two date checks, update writes and reads back.\<close>

lemma update_announcement_reached:
  assumes "verify_teacher username s = None"
    and "ObjectId announcement_id = Some i"
    and "map_of (announcements s) i = Some d"
    and "build_update title message expiration_date start_date = Inr u"
    and "\<not> range_violation u d"
  shows "update_announcement now announcement_id title message expiration_date start_date
           username s =
     (let d' = set_fields (u @ [(''updated_at'', VStr now)]) d in
      if d' = d then (Inl UpdateFailed, written i d' s)
      else (Inr (i, d'), called (FindOne i) (written i d' s)))"
  using assms
  by (simp add: update_announcement_def find_one_def update_one_def called_def written_def
      update_conv' Let_def)

lemma update_announcement_stopped:
  assumes "verify_teacher username s = None"
    and "ObjectId announcement_id = Some i"
    and "map_of (announcements s) i = Some d"
  shows "build_update title message expiration_date start_date = Inl e \<Longrightarrow>
         update_announcement now announcement_id title message expiration_date start_date
           username s = (Inl e, called (FindOne i) s)"
    and "build_update title message expiration_date start_date = Inr u \<Longrightarrow>
         range_violation u d \<Longrightarrow>
         update_announcement now announcement_id title message expiration_date start_date
           username s = (Inl InvalidDateRange, called (FindOne i) s)"
  using assms
  by (simp_all add: update_announcement_def find_one_def)

lemma update_announcement_Inr:
  assumes "update_announcement now announcement_id title message expiration_date start_date
             username s = (Inr (j, d'), s')"
  shows "\<exists>i d u. verify_teacher username s = None \<and> ObjectId announcement_id = Some i \<and> j = i
           \<and> map_of (announcements s) i = Some d
           \<and> build_update title message expiration_date start_date = Inr u
           \<and> \<not> range_violation u d
           \<and> d' = set_fields (u @ [(''updated_at'', VStr now)]) d \<and> d' \<noteq> d
           \<and> s' = called (FindOne i) (written i d' s)"
proof -
  from assms obtain i
    where 1: "verify_teacher username s = None" "ObjectId announcement_id = Some i"
    by (auto simp: update_announcement_def split: option.splits)
  from assms 1 obtain d where 2: "map_of (announcements s) i = Some d"
    by (auto simp: update_announcement_def find_one_def split: option.splits)
  from assms 1 2 obtain u
    where 3: "build_update title message expiration_date start_date = Inr u"
    by (cases "build_update title message expiration_date start_date")
       (auto simp: update_announcement_def find_one_def)
  from assms 1 2 3 have 4: "\<not> range_violation u d"
    by (auto simp: update_announcement_def find_one_def split: if_splits)
  from assms update_announcement_reached [OF 1 2 3 4, of now] 1 2 3 4 show ?thesis
    by (auto simp: Let_def split: if_splits)
qed

subsection \<open>The credential gate\<close>

text \<open>
  Claim C5. In listAll, create, update and delete, a call with no caller identifier
  (the parameter absent or empty, which is what \<^verbatim>\<open>not username\<close> tests) fails with
  \<open>Unauthenticated\<close>, and a call whose identifier the teachers collection does not hold
  fails with \<open>InvalidCredentials\<close>. In both cases the database returned is the one
  received: no document changed and no call on the announcements collection was made.
\<close>

theorem credential_gate_first:
  "((username = None \<or> username = Some []) \<longrightarrow>
      get_all_announcements username s = (Inl Unauthenticated, s)
    \<and> create_announcement new_id now title message expiration_date start_date username s
        = (Inl Unauthenticated, s)
    \<and> update_announcement now announcement_id title' message' expiration_date' start_date'
        username s = (Inl Unauthenticated, s)
    \<and> delete_announcement announcement_id username s = (Inl Unauthenticated, s))
   \<and> ((\<exists>u. username = Some u \<and> u \<noteq> [] \<and> u \<notin> set (teachers s)) \<longrightarrow>
      get_all_announcements username s = (Inl InvalidCredentials, s)
    \<and> create_announcement new_id now title message expiration_date start_date username s
        = (Inl InvalidCredentials, s)
    \<and> update_announcement now announcement_id title' message' expiration_date' start_date'
        username s = (Inl InvalidCredentials, s)
    \<and> delete_announcement announcement_id username s = (Inl InvalidCredentials, s))"
proof (intro conjI impI)
  assume a: "username = None \<or> username = Some []"
  then have v: "verify_teacher username s = Some Unauthenticated"
    by (auto simp: verify_teacher_cases)
  show "get_all_announcements username s = (Inl Unauthenticated, s)"
    "create_announcement new_id now title message expiration_date start_date username s
        = (Inl Unauthenticated, s)"
    "update_announcement now announcement_id title' message' expiration_date' start_date'
        username s = (Inl Unauthenticated, s)"
    "delete_announcement announcement_id username s = (Inl Unauthenticated, s)"
    by (rule handlers_stop_at_gate [OF v])+
next
  assume a: "\<exists>u. username = Some u \<and> u \<noteq> [] \<and> u \<notin> set (teachers s)"
  then have v: "verify_teacher username s = Some InvalidCredentials"
    by (auto simp: verify_teacher_cases)
  show "get_all_announcements username s = (Inl InvalidCredentials, s)"
    "create_announcement new_id now title message expiration_date start_date username s
        = (Inl InvalidCredentials, s)"
    "update_announcement now announcement_id title' message' expiration_date' start_date'
        username s = (Inl InvalidCredentials, s)"
    "delete_announcement announcement_id username s = (Inl InvalidCredentials, s)"
    by (rule handlers_stop_at_gate [OF v])+
qed

theorem credential_gate_first_witness:
  "get_all_announcements None db1 = (Inl Unauthenticated, db1)
   \<and> create_announcement oid1 ''2025-06-01T10:00:00'' ''T'' ''M'' ''2025-12-31'' None None db1
       = (Inl Unauthenticated, db1)
   \<and> update_announcement ''2025-06-01T10:00:00'' oid1 (Some ''T'') None None None None db1
       = (Inl Unauthenticated, db1)
   \<and> delete_announcement oid1 None db1 = (Inl Unauthenticated, db1)
   \<and> ''mallory'' \<noteq> [] \<and> ''mallory'' \<notin> set (teachers db1)
   \<and> get_all_announcements (Some ''mallory'') db1 = (Inl InvalidCredentials, db1)
   \<and> create_announcement oid1 ''2025-06-01T10:00:00'' ''T'' ''M'' ''2025-12-31'' None
        (Some ''mallory'') db1 = (Inl InvalidCredentials, db1)
   \<and> update_announcement ''2025-06-01T10:00:00'' oid1 (Some ''T'') None None None
        (Some ''mallory'') db1 = (Inl InvalidCredentials, db1)
   \<and> delete_announcement oid1 (Some ''mallory'') db1 = (Inl InvalidCredentials, db1)"
proof -
  have m: "''mallory'' \<noteq> [] \<and> ''mallory'' \<notin> set (teachers db1)"
    by (simp add: db1_def)
  show ?thesis
    using m
      credential_gate_first [of None db1 oid1 "''2025-06-01T10:00:00''" "''T''" "''M''"
        "''2025-12-31''" None oid1 "Some ''T''" None None None]
      credential_gate_first [of "Some ''mallory''" db1 oid1 "''2025-06-01T10:00:00''" "''T''"
        "''M''" "''2025-12-31''" None oid1 "Some ''T''" None None None]
    by simp
qed

lemma verify_teacher_frame:
  "teachers s' = teachers s \<Longrightarrow> verify_teacher username s' = verify_teacher username s"
  by (simp add: verify_teacher_def)

subsection \<open>The date range check of create\<close>

lemma check_dates_range:
  assumes "strptime expiration_date = Some exp_date"
    and "strptime sd = Some start" and "date_gt start exp_date"
  shows "check_dates expiration_date (Some sd) = Some InvalidDateRange"
proof -
  from assms(2) have "sd \<noteq> []" by (auto simp: strptime_Nil)
  with assms show ?thesis by (simp add: check_dates_def)
qed

text \<open>
  Claim C4, as stated, at a call without caller identifier: both dates parse, the start
  date is the later one, and create fails with \<open>Unauthenticated\<close>, not with
  \<open>InvalidDateRange\<close>.
\<close>

theorem create_inverted_range_unauthenticated:
  "strptime ''2025-06-01'' = Some (2025, 6, 1)
   \<and> strptime ''2025-06-10'' = Some (2025, 6, 10)
   \<and> date_gt (2025, 6, 10) (2025, 6, 1)
   \<and> create_announcement oid1 ''2025-05-01T09:00:00'' ''Exam Week'' ''Finals start Monday''
        ''2025-06-01'' (Some ''2025-06-10'') None db0 = (Inl Unauthenticated, db0)
   \<and> Unauthenticated \<noteq> InvalidDateRange"
  by code_simp

text \<open>
  Claim C4, amended. A create call by a caller who passes the credential gate, whose
  start date and expiration date both parse and whose start date is the later of the two
  dates, fails with \<open>InvalidDateRange\<close> and returns the database it received: nothing
  is inserted.
\<close>

theorem create_rejects_inverted_range:
  assumes "verify_teacher username s = None"
    and "strptime expiration_date = Some exp_date"
    and "strptime sd = Some start"
    and "date_gt start exp_date"
  shows "create_announcement new_id now title message expiration_date (Some sd) username s
           = (Inl InvalidDateRange, s)"
  using assms(1) check_dates_range [OF assms(2-4)]
  by (simp add: create_announcement_def)

theorem create_rejects_inverted_range_witness:
  "verify_teacher (Some ''ms_jones'') db0 = None
   \<and> strptime ''2025-06-01'' = Some (2025, 6, 1)
   \<and> strptime ''2025-06-10'' = Some (2025, 6, 10)
   \<and> date_gt (2025, 6, 10) (2025, 6, 1)
   \<and> create_announcement oid1 ''2025-05-01T09:00:00'' ''Exam Week'' ''Finals start Monday''
        ''2025-06-01'' (Some ''2025-06-10'') (Some ''ms_jones'') db0 = (Inl InvalidDateRange, db0)"
proof -
  have 1: "verify_teacher (Some ''ms_jones'') db0 = None"
    by (simp add: verify_teacher_def db0_def)
  have 2: "strptime ''2025-06-01'' = Some (2025, 6, 1)" by code_simp
  have 3: "strptime ''2025-06-10'' = Some (2025, 6, 10)" by code_simp
  have 4: "date_gt (2025, 6, 10) (2025, 6, 1)" by simp
  from create_rejects_inverted_range [OF 1 2 3 4] 1 2 3 4 show ?thesis by simp
qed

subsection \<open>Delete\<close>

lemma delete_missing:
  assumes "verify_teacher username s = None"
    and "ObjectId announcement_id = Some i"
    and "map_of (announcements s) i = None"
  shows "delete_announcement announcement_id username s = (Inl NotFound, called (DeleteOne i) s)"
  using assms by (simp add: delete_announcement_def delete_one_def)

lemma delete_Inr:
  assumes "delete_announcement announcement_id username s = (Inr (), s1)"
  shows "\<exists>i. verify_teacher username s = None \<and> ObjectId announcement_id = Some i
       \<and> s1 = called (DeleteOne i) (s\<lparr>announcements := AList.delete i (announcements s)\<rparr>)"
  using assms
  by (auto simp: delete_announcement_def delete_one_def split: option.splits if_splits)

text \<open>
  Claim C8, as stated, at a call without caller identifier: the identifier is well formed
  and matches no document, and delete fails with \<open>Unauthenticated\<close>, not with
  \<open>NotFound\<close>.
\<close>

theorem delete_absent_unauthenticated:
  "ObjectId oid2 = Some oid2 \<and> map_of (announcements db1) oid2 = None
   \<and> delete_announcement oid2 None db1 = (Inl Unauthenticated, db1)
   \<and> Unauthenticated \<noteq> NotFound"
  by code_simp

text \<open>
  Claim C8, amended. For a caller who passes the credential gate, delete on a well-formed
  identifier that matches no document fails with \<open>NotFound\<close>; and after a delete that
  succeeded, the same call again fails with \<open>NotFound\<close>. In both cases the documents of
  the announcements collection are unchanged.
\<close>

theorem delete_absent_not_found:
  "(verify_teacher username s = None \<and> ObjectId announcement_id = Some i
      \<and> map_of (announcements s) i = None \<longrightarrow>
      fst (delete_announcement announcement_id username s) = Inl NotFound
      \<and> announcements (snd (delete_announcement announcement_id username s)) = announcements s)
   \<and> (delete_announcement announcement_id username s = (Inr (), s1) \<longrightarrow>
      fst (delete_announcement announcement_id username s1) = Inl NotFound
      \<and> announcements (snd (delete_announcement announcement_id username s1)) = announcements s1)"
proof (intro conjI impI)
  assume "verify_teacher username s = None \<and> ObjectId announcement_id = Some i
      \<and> map_of (announcements s) i = None"
  then have "delete_announcement announcement_id username s
      = (Inl NotFound, called (DeleteOne i) s)"
    by (simp add: delete_missing)
  then show "fst (delete_announcement announcement_id username s) = Inl NotFound"
    "announcements (snd (delete_announcement announcement_id username s)) = announcements s"
    by simp_all
next
  assume "delete_announcement announcement_id username s = (Inr (), s1)"
  then obtain j where j: "verify_teacher username s = None" "ObjectId announcement_id = Some j"
    "s1 = called (DeleteOne j) (s\<lparr>announcements := AList.delete j (announcements s)\<rparr>)"
    using delete_Inr by blast
  have "verify_teacher username s1 = None"
    using j(1) verify_teacher_frame [of s1 s username] by (simp add: j(3))
  moreover have "map_of (announcements s1) j = None"
    by (simp add: j(3) delete_conv')
  ultimately have "delete_announcement announcement_id username s1
      = (Inl NotFound, called (DeleteOne j) s1)"
    using j(2) by (simp add: delete_missing)
  then show "fst (delete_announcement announcement_id username s1) = Inl NotFound"
    "announcements (snd (delete_announcement announcement_id username s1)) = announcements s1"
    by simp_all
qed

theorem delete_absent_not_found_witness:
  "verify_teacher (Some ''ms_jones'') db1 = None \<and> ObjectId oid2 = Some oid2
   \<and> map_of (announcements db1) oid2 = None
   \<and> fst (delete_announcement oid2 (Some ''ms_jones'') db1) = Inl NotFound
   \<and> announcements (snd (delete_announcement oid2 (Some ''ms_jones'') db1)) = announcements db1
   \<and> delete_announcement oid1 (Some ''ms_jones'') db1 = (Inr (), db1_deleted)
   \<and> fst (delete_announcement oid1 (Some ''ms_jones'') db1_deleted) = Inl NotFound
   \<and> announcements (snd (delete_announcement oid1 (Some ''ms_jones'') db1_deleted))
       = announcements db1_deleted"
proof -
  have 1: "verify_teacher (Some ''ms_jones'') db1 = None \<and> ObjectId oid2 = Some oid2
     \<and> map_of (announcements db1) oid2 = None"
    by code_simp
  have 2: "delete_announcement oid1 (Some ''ms_jones'') db1 = (Inr (), db1_deleted)"
    by code_simp
  from 1 2
    delete_absent_not_found [of "Some ''ms_jones''" db1 oid2 oid2 db1_deleted]
    delete_absent_not_found [of "Some ''ms_jones''" db1 oid1 oid1 db1_deleted]
  show ?thesis by simp
qed

subsection \<open>Visibility of an announcement without start date\<close>

text \<open>
  The query of \<^verbatim>\<open>get_active_announcements\<close> never selects a document whose
  \<^verbatim>\<open>start_date\<close> holds null: the field exists, and null is not a string.
\<close>

lemma null_start_never_active:
  "map_of d ''start_date'' = Some VNull \<Longrightarrow> \<not> matches (active_query today) d"
  by (simp add: active_query_def)

lemma absent_start_active:
  "map_of d ''start_date'' = None \<Longrightarrow>
   matches (active_query today) d = holds (QGte today) (map_of d ''expiration_date'')"
  by (simp add: active_query_def)

lemma create_announcement_Inr:
  assumes "create_announcement new_id now title message expiration_date start_date username s
             = (Inr (i, d), s')"
  shows "verify_teacher username s = None \<and> check_dates expiration_date start_date = None
       \<and> i = new_id
       \<and> d = new_announcement title message expiration_date start_date (the username) now
       \<and> map_of (announcements s) new_id = None
       \<and> s' = called (InsertOne new_id) (s\<lparr>announcements := announcements s @ [(new_id, d)]\<rparr>)"
  using assms
  by (auto simp: create_announcement_def insert_one_def Let_def split: option.splits if_splits)

lemma map_of_appended: "map_of xs i = None \<Longrightarrow> map_of (xs @ [(i, d)]) i = Some d"
  by (simp add: map_add_def)

lemma create_without_start_stores_null:
  assumes "create_announcement new_id now title message expiration_date None username s
             = (Inr (i, d), s')"
  shows "map_of d ''start_date'' = Some VNull \<and> map_of (announcements s') i = Some d"
  using create_announcement_Inr [OF assms]
  by (simp add: new_announcement_def map_of_appended del: map_of_append)

lemma created_without_start_never_listed:
  assumes "create_announcement new_id now title message expiration_date None username s
             = (Inr (i, d), s')"
  shows "(i, d) \<notin> set (fst (get_active_announcements today s'))"
  using create_without_start_stores_null [OF assms] null_start_never_active [of d today]
  by (auto simp: get_active_announcements_def find_many_def)

text \<open>
  Claim C1, on the code. A known teacher creates an announcement with the start date
  omitted and the expiration date 2030-01-01 in the empty collection; create succeeds and
  stores null under \<^verbatim>\<open>start_date\<close>. On 2025-06-01, which is not after the expiration
  date, \<^verbatim>\<open>get_active_announcements\<close> returns nothing.
\<close>

theorem created_without_start_not_listed:
  "fst (create_announcement oid1 ''2025-06-01T10:00:00'' ''Exam Week'' ''Finals start Monday''
          ''2030-01-01'' None (Some ''ms_jones'') db0)
     = Inr (oid1, new_announcement ''Exam Week'' ''Finals start Monday'' ''2030-01-01'' None
                    ''ms_jones'' ''2025-06-01T10:00:00'')
   \<and> str_le ''2025-06-01'' ''2030-01-01''
   \<and> fst (get_active_announcements ''2025-06-01''
          (snd (create_announcement oid1 ''2025-06-01T10:00:00'' ''Exam Week''
                  ''Finals start Monday'' ''2030-01-01'' None (Some ''ms_jones'') db0))) = []"
  by code_simp

text \<open>
  Claim C2, on the code. The announcement of \<open>db1\<close> (start 2025-06-01, expiration
  2025-12-31) is listed on 2025-07-01. A known teacher clears its start date (the empty
  string); update succeeds and stores null under \<^verbatim>\<open>start_date\<close>. On the same day, still
  before the expiration date, \<^verbatim>\<open>get_active_announcements\<close> no longer returns it.
\<close>

theorem cleared_start_not_listed:
  "fst (get_active_announcements ''2025-07-01'' db1) = [(oid1, doc1)]
   \<and> fst (update_announcement ''2025-06-15T12:00:00'' oid1 None None None (Some '''')
             (Some ''ms_jones'') db1)
       = Inr (oid1, set_fields [(''start_date'', VNull),
                                (''updated_at'', VStr ''2025-06-15T12:00:00'')] doc1)
   \<and> str_le ''2025-07-01'' ''2025-12-31''
   \<and> fst (get_active_announcements ''2025-07-01''
          (snd (update_announcement ''2025-06-15T12:00:00'' oid1 None None None (Some '''')
                  (Some ''ms_jones'') db1))) = []"
  by code_simp

subsection \<open>What update writes\<close>

lemma build_update_fields:
  assumes "build_update title message expiration_date start_date = Inr u"
  shows "map_of (rev u) ''title'' = (if truthy (param title) then Some (param title) else None)"
    and "map_of (rev u) ''message'' = (if truthy (param message) then Some (param message) else None)"
    and "map_of (rev u) ''expiration_date'' =
           (if truthy (param expiration_date) then Some (param expiration_date) else None)"
    and "map_of (rev u) ''start_date'' =
           (case start_date of None \<Rightarrow> None
            | Some x \<Rightarrow> if x = [] then Some VNull else Some (VStr x))"
    and "map_of (rev u) ''updated_at'' = None"
  using assms
  by (auto simp: build_update_def Let_def split: if_splits option.splits)

lemma build_update_fields':
  assumes "build_update title message expiration_date start_date = Inr u"
  shows "map_of u ''title'' = (if truthy (param title) then Some (param title) else None)"
    and "map_of u ''message'' = (if truthy (param message) then Some (param message) else None)"
    and "map_of u ''expiration_date'' =
           (if truthy (param expiration_date) then Some (param expiration_date) else None)"
    and "map_of u ''start_date'' =
           (case start_date of None \<Rightarrow> None
            | Some x \<Rightarrow> if x = [] then Some VNull else Some (VStr x))"
    and "map_of u ''updated_at'' = None"
  using assms
  by (auto simp: build_update_def Let_def split: if_splits option.splits)

lemma build_update_parsed:
  assumes "build_update title message expiration_date start_date = Inr u"
  shows "truthy (param expiration_date) \<Longrightarrow> strptime (the expiration_date) \<noteq> None"
    and "start_date = Some x \<Longrightarrow> x \<noteq> [] \<Longrightarrow> strptime x \<noteq> None"
  using assms
  by (auto simp: build_update_def Let_def split: if_splits option.splits)

lemma build_update_empty:
  assumes "\<not> truthy (param title)" "\<not> truthy (param message)" "\<not> truthy (param expiration_date)"
  shows "build_update title message expiration_date None = Inr []"
  using assms by (simp add: build_update_def)

lemma range_violation_Nil: "\<not> range_violation [] d"
  by (simp add: range_violation_def has_key_def)

lemma stamp_unchanged:
  "AList.update ''updated_at'' (VStr now) d = d \<longleftrightarrow> map_of d ''updated_at'' = Some (VStr now)"
proof
  assume "AList.update ''updated_at'' (VStr now) d = d"
  then have "map_of d ''updated_at'' = map_of (AList.update ''updated_at'' (VStr now) d) ''updated_at''"
    by simp
  then show "map_of d ''updated_at'' = Some (VStr now)"
    by (simp add: update_conv')
next
  assume "map_of d ''updated_at'' = Some (VStr now)"
  then show "AList.update ''updated_at'' (VStr now) d = d"
    by (rule update_triv)
qed

lemma written_state:
  "map_of (announcements (called c (written i d' s))) i = Some d'"
  by (simp add: update_conv')

text \<open>
  Claim C10, as stated, at two calls that supply no content field on the announcement of
  \<open>db2\<close>: without caller identifier the call fails with \<open>Unauthenticated\<close>; by a known
  teacher, at the very timestamp the document already holds under \<^verbatim>\<open>updated_at\<close>, the
  store reports no modified document and the call fails with \<open>UpdateFailed\<close>.
\<close>

theorem empty_update_fails:
  "fst (update_announcement ''2025-05-03T10:00:00'' oid1 None None None None None db2)
     = Inl Unauthenticated
   \<and> fst (update_announcement ''2025-05-02T08:00:00'' oid1 None (Some '''') None None
            (Some ''ms_jones'') db2) = Inl UpdateFailed"
  by code_simp

text \<open>
  Claim C10, amended. Every successful update call leaves the current timestamp under
  \<^verbatim>\<open>updated_at\<close> in the stored document, whichever fields were supplied. An update by a
  caller who passes the credential gate, on a well-formed identifier of an existing
  document, that supplies no content field (title, message and expiration date absent or
  empty, start date absent) succeeds and writes \<^verbatim>\<open>updated_at\<close> when the document does not
  already hold the current timestamp there; when it does, the call fails with
  \<open>UpdateFailed\<close>.
\<close>

theorem update_stamps_updated_at:
  "(update_announcement now announcement_id title message expiration_date start_date username s
      = (Inr (j, d'), s') \<longrightarrow>
      get d' ''updated_at'' = VStr now \<and> map_of (announcements s') j = Some d')
   \<and> (verify_teacher username s = None \<and> ObjectId announcement_id = Some i
        \<and> map_of (announcements s) i = Some d
        \<and> \<not> truthy (param title) \<and> \<not> truthy (param message)
        \<and> \<not> truthy (param expiration_date) \<longrightarrow>
      update_announcement now announcement_id title message expiration_date None username s
        = (if map_of d ''updated_at'' = Some (VStr now) then (Inl UpdateFailed, written i d s)
           else (Inr (i, AList.update ''updated_at'' (VStr now) d),
                 called (FindOne i) (written i (AList.update ''updated_at'' (VStr now) d) s))))"
proof (intro conjI impI)
  assume "update_announcement now announcement_id title message expiration_date start_date
            username s = (Inr (j, d'), s')"
  from update_announcement_Inr [OF this] obtain d0 u
    where "d' = set_fields (u @ [(''updated_at'', VStr now)]) d0"
      and "s' = called (FindOne j) (written j d' s)"
    by blast
  then show "get d' ''updated_at'' = VStr now" "map_of (announcements s') j = Some d'"
    by (simp_all add: get_stamped update_conv')
next
  assume a: "verify_teacher username s = None \<and> ObjectId announcement_id = Some i
        \<and> map_of (announcements s) i = Some d
        \<and> \<not> truthy (param title) \<and> \<not> truthy (param message)
        \<and> \<not> truthy (param expiration_date)"
  then have b: "build_update title message expiration_date None = Inr []"
    by (simp add: build_update_empty)
  from a have 1: "verify_teacher username s = None" and 2: "ObjectId announcement_id = Some i"
    and 3: "map_of (announcements s) i = Some d" by simp_all
  show "update_announcement now announcement_id title message expiration_date None username s
        = (if map_of d ''updated_at'' = Some (VStr now) then (Inl UpdateFailed, written i d s)
           else (Inr (i, AList.update ''updated_at'' (VStr now) d),
                 called (FindOne i) (written i (AList.update ''updated_at'' (VStr now) d) s)))"
  proof (cases "map_of d ''updated_at'' = Some (VStr now)")
    case True
    then have "AList.update ''updated_at'' (VStr now) d = d"
      by (rule update_triv)
    with True show ?thesis
      using update_announcement_reached [OF 1 2 3 b range_violation_Nil, of now]
      by (simp add: set_fields_single Let_def)
  next
    case False
    then have "AList.update ''updated_at'' (VStr now) d \<noteq> d"
      by (simp add: stamp_unchanged)
    with False show ?thesis
      using update_announcement_reached [OF 1 2 3 b range_violation_Nil, of now]
      by (simp add: set_fields_single Let_def)
  qed
qed

theorem update_stamps_updated_at_witness:
  "update_announcement ''2025-06-15T12:00:00'' oid1 (Some ''Exam Week 2'') None None None
      (Some ''ms_jones'') db1
     = (Inr (oid1, set_fields [(''title'', VStr ''Exam Week 2''),
                               (''updated_at'', VStr ''2025-06-15T12:00:00'')] doc1),
        called (FindOne oid1)
          (written oid1 (set_fields [(''title'', VStr ''Exam Week 2''),
                               (''updated_at'', VStr ''2025-06-15T12:00:00'')] doc1) db1))
   \<and> get (set_fields [(''title'', VStr ''Exam Week 2''),
                      (''updated_at'', VStr ''2025-06-15T12:00:00'')] doc1) ''updated_at''
       = VStr ''2025-06-15T12:00:00''
   \<and> verify_teacher (Some ''ms_jones'') db2 = None \<and> ObjectId oid1 = Some oid1
   \<and> map_of (announcements db2) oid1 = Some doc2
   \<and> \<not> truthy (param None) \<and> \<not> truthy (param (Some '''')) \<and> \<not> truthy (param None)
   \<and> map_of doc2 ''updated_at'' \<noteq> Some (VStr ''2025-06-15T12:00:00'')
   \<and> update_announcement ''2025-06-15T12:00:00'' oid1 None (Some '''') None None
        (Some ''ms_jones'') db2
       = (Inr (oid1, AList.update ''updated_at'' (VStr ''2025-06-15T12:00:00'') doc2),
          called (FindOne oid1)
            (written oid1 (AList.update ''updated_at'' (VStr ''2025-06-15T12:00:00'') doc2) db2))
   \<and> map_of doc2 ''updated_at'' = Some (VStr ''2025-05-02T08:00:00'')
   \<and> update_announcement ''2025-05-02T08:00:00'' oid1 None (Some '''') None None
        (Some ''ms_jones'') db2 = (Inl UpdateFailed, written oid1 doc2 db2)"
proof -
  have 1: "update_announcement ''2025-06-15T12:00:00'' oid1 (Some ''Exam Week 2'') None None None
      (Some ''ms_jones'') db1
     = (Inr (oid1, set_fields [(''title'', VStr ''Exam Week 2''),
                               (''updated_at'', VStr ''2025-06-15T12:00:00'')] doc1),
        called (FindOne oid1)
          (written oid1 (set_fields [(''title'', VStr ''Exam Week 2''),
                               (''updated_at'', VStr ''2025-06-15T12:00:00'')] doc1) db1))"
    by code_simp
  have 2: "verify_teacher (Some ''ms_jones'') db2 = None \<and> ObjectId oid1 = Some oid1
     \<and> map_of (announcements db2) oid1 = Some doc2
     \<and> \<not> truthy (param None) \<and> \<not> truthy (param (Some '''')) \<and> \<not> truthy (param None)"
    by code_simp
  have 3: "map_of doc2 ''updated_at'' = Some (VStr ''2025-05-02T08:00:00'')" by code_simp
  have 4: "map_of doc2 ''updated_at'' \<noteq> Some (VStr ''2025-06-15T12:00:00'')" by code_simp
  note a = update_stamps_updated_at [THEN conjunct1, THEN mp, OF 1, THEN conjunct1]
  note b = update_stamps_updated_at [THEN conjunct2, THEN mp, OF 2]
  have 5: "update_announcement ''2025-06-15T12:00:00'' oid1 None (Some '''') None None
        (Some ''ms_jones'') db2
       = (Inr (oid1, AList.update ''updated_at'' (VStr ''2025-06-15T12:00:00'') doc2),
          called (FindOne oid1)
            (written oid1 (AList.update ''updated_at'' (VStr ''2025-06-15T12:00:00'') doc2) db2))"
    using b [of "''2025-06-15T12:00:00''"] 4 by (simp only: if_False)
  have 6: "update_announcement ''2025-05-02T08:00:00'' oid1 None (Some '''') None None
        (Some ''ms_jones'') db2 = (Inl UpdateFailed, written oid1 doc2 db2)"
    using b [of "''2025-05-02T08:00:00''"] 3 by (simp only: simp_thms if_True)
  from 1 a 2 3 4 5 6 show ?thesis by blast
qed

subsection \<open>The title\<close>

lemma get_set_fields:
  "get (set_fields upd d) k = (case map_of (rev upd) k of None \<Rightarrow> get d k | Some v \<Rightarrow> v)"
  by (simp add: get_def map_of_set_fields split: option.splits)

lemma title_after_update:
  assumes "build_update title message expiration_date start_date = Inr u"
  shows "get (set_fields (u @ [(''updated_at'', VStr now)]) d) ''title''
           = (if truthy (param title) then param title else get d ''title'')"
  by (simp add: get_set_fields build_update_fields(1) [OF assms])

text \<open>
  Claim C7, as stated, at a create call with the empty title: a known teacher creates the
  announcement, and the stored document holds the empty string as its title.
\<close>

theorem create_accepts_empty_title:
  "fst (create_announcement oid1 ''2025-05-01T09:00:00'' '''' ''Finals start Monday''
          ''2025-12-31'' None (Some ''ms_jones'') db0)
     = Inr (oid1, new_announcement '''' ''Finals start Monday'' ''2025-12-31'' None
                    ''ms_jones'' ''2025-05-01T09:00:00'')
   \<and> map_of (announcements (snd (create_announcement oid1 ''2025-05-01T09:00:00'' ''''
          ''Finals start Monday'' ''2025-12-31'' None (Some ''ms_jones'') db0))) oid1
     = Some (new_announcement '''' ''Finals start Monday'' ''2025-12-31'' None
                    ''ms_jones'' ''2025-05-01T09:00:00'')
   \<and> get (new_announcement '''' ''Finals start Monday'' ''2025-12-31'' None
                    ''ms_jones'' ''2025-05-01T09:00:00'') ''title'' = VStr ''''"
  by code_simp

text \<open>
  Claim C7, amended. Create makes no check of the title: the document it stores holds the
  title it was given, empty or not. Update never sets the title to an empty value: after a
  successful update the title is the supplied one when that is not empty, and the title
  the document had before otherwise; so a document whose title was not empty keeps a
  title that is not empty.
\<close>

theorem title_written:
  "(create_announcement new_id now title message expiration_date start_date username s
      = (Inr (i, d), s') \<longrightarrow>
      get d ''title'' = VStr title \<and> map_of (announcements s') i = Some d)
   \<and> (update_announcement now' announcement_id title' message' expiration_date' start_date'
        username' s = (Inr (j, d'), s'') \<and> map_of (announcements s) j = Some d0 \<longrightarrow>
      get d' ''title'' = (if truthy (param title') then param title' else get d0 ''title'')
      \<and> map_of (announcements s'') j = Some d'
      \<and> (truthy (get d0 ''title'') \<longrightarrow> truthy (get d' ''title'')))"
proof (intro conjI impI)
  assume "create_announcement new_id now title message expiration_date start_date username s
      = (Inr (i, d), s')"
  from create_announcement_Inr [OF this]
  show "get d ''title'' = VStr title" "map_of (announcements s') i = Some d"
    by (simp_all add: get_def new_announcement_def map_of_appended del: map_of_append)
next
  assume a: "update_announcement now' announcement_id title' message' expiration_date'
      start_date' username' s = (Inr (j, d'), s'') \<and> map_of (announcements s) j = Some d0"
  from update_announcement_Inr [of now' announcement_id title' message' expiration_date'
      start_date' username' s j d' s''] a
  obtain u where u: "build_update title' message' expiration_date' start_date' = Inr u"
    and d': "d' = set_fields (u @ [(''updated_at'', VStr now')]) d0"
    and s'': "s'' = called (FindOne j) (written j d' s)"
    by auto
  show t: "get d' ''title'' = (if truthy (param title') then param title' else get d0 ''title'')"
    unfolding d' by (rule title_after_update [OF u])
  show "map_of (announcements s'') j = Some d'"
    by (simp add: s'' update_conv')
  assume "truthy (get d0 ''title'')"
  with t show "truthy (get d' ''title'')" by simp
qed

theorem title_written_witness:
  "create_announcement oid1 ''2025-05-01T09:00:00'' ''Exam Week'' ''Finals start Monday''
        ''2025-12-31'' (Some ''2025-06-01'') (Some ''ms_jones'') db0 = (Inr (oid1, doc1), db1_created)
   \<and> get doc1 ''title'' = VStr ''Exam Week''
   \<and> map_of (announcements db1_created) oid1 = Some doc1
   \<and> update_announcement ''2025-06-15T12:00:00'' oid1 (Some '''') (Some ''Finals start Tuesday'')
        None None (Some ''ms_jones'') db1 = (Inr (oid1, doc1_updated), db1_updated)
   \<and> map_of (announcements db1) oid1 = Some doc1
   \<and> truthy (get doc1 ''title'')
   \<and> get doc1_updated ''title'' = get doc1 ''title''
   \<and> truthy (get doc1_updated ''title'')"
proof -
  have 1: "create_announcement oid1 ''2025-05-01T09:00:00'' ''Exam Week'' ''Finals start Monday''
        ''2025-12-31'' (Some ''2025-06-01'') (Some ''ms_jones'') db0 = (Inr (oid1, doc1), db1_created)"
    by code_simp
  have 2: "update_announcement ''2025-06-15T12:00:00'' oid1 (Some '''') (Some ''Finals start Tuesday'')
        None None (Some ''ms_jones'') db1 = (Inr (oid1, doc1_updated), db1_updated)
      \<and> map_of (announcements db1) oid1 = Some doc1"
    by code_simp
  have 3: "truthy (get doc1 ''title'')" by code_simp
  have 4: "\<not> truthy (param (Some ''''))" by simp
  note a = title_written [THEN conjunct1, THEN mp, OF 1]
  note b = title_written [THEN conjunct2, THEN mp, OF 2]
  from b 4 have 5: "get doc1_updated ''title'' = get doc1 ''title''"
    by (simp only: if_False)
  from b 3 have 6: "truthy (get doc1_updated ''title'')" by blast
  from 1 2 3 5 6 a show ?thesis by blast
qed

subsection \<open>The date format checks\<close>

lemma check_dates_format:
  assumes "strptime expiration_date = None
           \<or> (\<exists>x. start_date = Some x \<and> x \<noteq> [] \<and> strptime x = None)"
  shows "check_dates expiration_date start_date = Some InvalidDateFormat"
  using assms by (auto simp: check_dates_def split: option.splits)

lemma build_update_format:
  assumes "(\<exists>x. expiration_date = Some x \<and> x \<noteq> [] \<and> strptime x = None)
           \<or> (\<exists>x. start_date = Some x \<and> x \<noteq> [] \<and> strptime x = None)"
  shows "build_update title message expiration_date start_date = Inl InvalidDateFormat"
  using assms by (auto simp: build_update_def Let_def)

text \<open>
  Claim C6, as stated. At a create call without caller identifier whose expiration date
  does not parse, create fails with \<open>Unauthenticated\<close>, not with \<open>InvalidDateFormat\<close>.
  And the checks accept more than fixed-width dates: \<^verbatim>\<open>strptime\<close> parses 2025-9-1, a
  known teacher creates an announcement that starts on 2025-9-1 and expires on
  2025-10-01, and the order of the two strings is the reverse of the order of the dates.
\<close>

theorem date_checks_behind_gate_and_unpadded:
  "strptime ''2025-13-01'' = None
   \<and> create_announcement oid1 ''2025-05-01T09:00:00'' ''Exam Week'' ''Finals start Monday''
        ''2025-13-01'' None None db0 = (Inl Unauthenticated, db0)
   \<and> strptime ''2025-9-1'' = Some (2025, 9, 1)
   \<and> strptime ''2025-10-01'' = Some (2025, 10, 1)
   \<and> fst (create_announcement oid1 ''2025-05-01T09:00:00'' ''Exam Week'' ''Finals start Monday''
        ''2025-10-01'' (Some ''2025-9-1'') (Some ''ms_jones'') db0)
       = Inr (oid1, new_announcement ''Exam Week'' ''Finals start Monday'' ''2025-10-01''
                (Some ''2025-9-1'') ''ms_jones'' ''2025-05-01T09:00:00'')
   \<and> length ''2025-9-1'' \<noteq> length ''2025-10-01''
   \<and> \<not> date_gt (2025, 9, 1) (2025, 10, 1)
   \<and> \<not> str_le ''2025-9-1'' ''2025-10-01''"
  by code_simp

text \<open>
  Claim C6, amended. For a caller who passes the credential gate, create fails with
  \<open>InvalidDateFormat\<close> when the expiration date does not parse or when a start date is
  given, is not empty and does not parse, and it returns the database it received. For such
  a caller and a well-formed identifier of an existing document, update fails with
  \<open>InvalidDateFormat\<close> when the expiration date or the start date is given, is not empty
  and does not parse, and the documents of the collection are unchanged.
\<close>

theorem unparsed_date_rejected:
  "(verify_teacher username s = None
      \<and> (strptime expiration_date = None
          \<or> (\<exists>x. start_date = Some x \<and> x \<noteq> [] \<and> strptime x = None)) \<longrightarrow>
      create_announcement new_id now title message expiration_date start_date username s
        = (Inl InvalidDateFormat, s))
   \<and> (verify_teacher username s = None \<and> ObjectId announcement_id = Some i
      \<and> map_of (announcements s) i = Some d
      \<and> ((\<exists>x. expiration_date' = Some x \<and> x \<noteq> [] \<and> strptime x = None)
          \<or> (\<exists>x. start_date' = Some x \<and> x \<noteq> [] \<and> strptime x = None)) \<longrightarrow>
      fst (update_announcement now announcement_id title' message' expiration_date' start_date'
             username s) = Inl InvalidDateFormat
      \<and> announcements (snd (update_announcement now announcement_id title' message'
             expiration_date' start_date' username s)) = announcements s)"
proof (intro conjI impI)
  assume a: "verify_teacher username s = None
      \<and> (strptime expiration_date = None
          \<or> (\<exists>x. start_date = Some x \<and> x \<noteq> [] \<and> strptime x = None))"
  then have "check_dates expiration_date start_date = Some InvalidDateFormat"
    by (simp add: check_dates_format)
  with a show "create_announcement new_id now title message expiration_date start_date username s
        = (Inl InvalidDateFormat, s)"
    by (simp add: create_announcement_def)
next
  assume a: "verify_teacher username s = None \<and> ObjectId announcement_id = Some i
      \<and> map_of (announcements s) i = Some d
      \<and> ((\<exists>x. expiration_date' = Some x \<and> x \<noteq> [] \<and> strptime x = None)
          \<or> (\<exists>x. start_date' = Some x \<and> x \<noteq> [] \<and> strptime x = None))"
  then have b: "build_update title' message' expiration_date' start_date' = Inl InvalidDateFormat"
    by (simp add: build_update_format)
  from a have 1: "verify_teacher username s = None" and 2: "ObjectId announcement_id = Some i"
    and 3: "map_of (announcements s) i = Some d" by simp_all
  have "update_announcement now announcement_id title' message' expiration_date' start_date'
          username s = (Inl InvalidDateFormat, called (FindOne i) s)"
    by (rule update_announcement_stopped(1) [OF 1 2 3 b])
  then show "fst (update_announcement now announcement_id title' message' expiration_date'
      start_date' username s) = Inl InvalidDateFormat"
    "announcements (snd (update_announcement now announcement_id title' message'
             expiration_date' start_date' username s)) = announcements s"
    by simp_all
qed

theorem unparsed_date_rejected_witness:
  "verify_teacher (Some ''ms_jones'') db1 = None
   \<and> strptime ''2025-13-01'' = None
   \<and> ''06/01/2025'' \<noteq> [] \<and> strptime ''06/01/2025'' = None
   \<and> create_announcement oid2 ''2025-05-01T09:00:00'' ''Exam Week'' ''Finals start Monday''
        ''2025-13-01'' None (Some ''ms_jones'') db1 = (Inl InvalidDateFormat, db1)
   \<and> create_announcement oid2 ''2025-05-01T09:00:00'' ''Exam Week'' ''Finals start Monday''
        ''2025-12-31'' (Some ''06/01/2025'') (Some ''ms_jones'') db1 = (Inl InvalidDateFormat, db1)
   \<and> ObjectId oid1 = Some oid1 \<and> map_of (announcements db1) oid1 = Some doc1
   \<and> fst (update_announcement ''2025-06-15T12:00:00'' oid1 None None (Some ''2025-13-01'') None
          (Some ''ms_jones'') db1) = Inl InvalidDateFormat
   \<and> announcements (snd (update_announcement ''2025-06-15T12:00:00'' oid1 None None
          (Some ''2025-13-01'') None (Some ''ms_jones'') db1)) = announcements db1
   \<and> fst (update_announcement ''2025-06-15T12:00:00'' oid1 None None None (Some ''06/01/2025'')
          (Some ''ms_jones'') db1) = Inl InvalidDateFormat
   \<and> announcements (snd (update_announcement ''2025-06-15T12:00:00'' oid1 None None
          None (Some ''06/01/2025'') (Some ''ms_jones'') db1)) = announcements db1"
proof -
  have v: "verify_teacher (Some ''ms_jones'') db1 = None" by code_simp
  have p1: "strptime ''2025-13-01'' = None" by code_simp
  have p2: "''06/01/2025'' \<noteq> [] \<and> strptime ''06/01/2025'' = None" by code_simp
  have e: "ObjectId oid1 = Some oid1 \<and> map_of (announcements db1) oid1 = Some doc1"
    by code_simp
  have h1: "verify_teacher (Some ''ms_jones'') db1 = None
      \<and> (strptime ''2025-13-01'' = None
          \<or> (\<exists>x. None = Some x \<and> x \<noteq> [] \<and> strptime x = None))"
    using v p1 by blast
  have h2: "verify_teacher (Some ''ms_jones'') db1 = None
      \<and> (strptime ''2025-12-31'' = None
          \<or> (\<exists>x. Some ''06/01/2025'' = Some x \<and> x \<noteq> [] \<and> strptime x = None))"
    using v p2 by blast
  have h3: "verify_teacher (Some ''ms_jones'') db1 = None \<and> ObjectId oid1 = Some oid1
      \<and> map_of (announcements db1) oid1 = Some doc1
      \<and> ((\<exists>x. Some ''2025-13-01'' = Some x \<and> x \<noteq> [] \<and> strptime x = None)
          \<or> (\<exists>x. None = Some x \<and> x \<noteq> [] \<and> strptime x = None))"
    using v e p1 by blast
  have h4: "verify_teacher (Some ''ms_jones'') db1 = None \<and> ObjectId oid1 = Some oid1
      \<and> map_of (announcements db1) oid1 = Some doc1
      \<and> ((\<exists>x. None = Some x \<and> x \<noteq> [] \<and> strptime x = None)
          \<or> (\<exists>x. Some ''06/01/2025'' = Some x \<and> x \<noteq> [] \<and> strptime x = None))"
    using v e p2 by blast
  note c1 = unparsed_date_rejected [THEN conjunct1, THEN mp, OF h1]
  note c2 = unparsed_date_rejected [THEN conjunct1, THEN mp, OF h2]
  note u1 = unparsed_date_rejected [THEN conjunct2, THEN mp, OF h3]
  note u2 = unparsed_date_rejected [THEN conjunct2, THEN mp, OF h4]
  from v p1 p2 e c1 c2 u1 u2 show ?thesis by blast
qed

subsection \<open>The date range check of update\<close>

lemma range_violation_effective:
  assumes "build_update title message expiration_date start_date = Inr u"
    and "start_date \<noteq> Some []"
  shows "range_violation u d \<longleftrightarrow>
           (start_date \<noteq> None \<or> truthy (param expiration_date))
           \<and> later (effective start_date (get d ''start_date''))
                   (effective expiration_date (get d ''expiration_date''))"
proof -
  note f = build_update_fields'(3,4) [OF assms(1)]
  have s: "get u ''start_date'' = param start_date"
    using assms(2) f(2) by (cases start_date) (auto simp: get_def)
  have e: "get u ''expiration_date''
             = (if truthy (param expiration_date) then param expiration_date else VNull)"
    using f(1) by (simp add: get_def)
  have k: "has_key u ''start_date'' \<longleftrightarrow> start_date \<noteq> None"
    "has_key u ''expiration_date'' \<longleftrightarrow> truthy (param expiration_date)"
    using f by (auto simp: has_key_def split: option.splits)
  have ps: "py_or (param start_date) (get d ''start_date'')
              = effective start_date (get d ''start_date'')"
    using assms(2) by (cases start_date) (auto simp: py_or_def effective_def)
  have pe: "py_or (if truthy (param expiration_date) then param expiration_date else VNull)
                  (get d ''expiration_date'')
              = effective expiration_date (get d ''expiration_date'')"
    by (cases expiration_date) (auto simp: py_or_def effective_def)
  show ?thesis
    unfolding range_violation_def k s e ps pe
    by (auto simp: later_def Let_def strptime_Nil split: val.splits option.splits)
qed

text \<open>
  Claim C3, as stated, at two calls on the announcement of \<open>db1\<close> (start 2025-06-01,
  expiration 2025-12-31). Without caller identifier, an update that moves the start date
  behind the expiration date fails with \<open>Unauthenticated\<close>, not with \<open>InvalidDateRange\<close>.
  By a known teacher, an update that clears the start date and sets the expiration date
  2025-05-01 would leave a document without start date; the code compares the start date
  the document had before with the new expiration date and fails with \<open>InvalidDateRange\<close>.
\<close>

theorem update_range_behind_gate_and_cleared:
  "strptime ''2026-01-15'' = Some (2026, 1, 15) \<and> strptime ''2025-12-31'' = Some (2025, 12, 31)
   \<and> date_gt (2026, 1, 15) (2025, 12, 31)
   \<and> update_announcement ''2025-06-15T12:00:00'' oid1 None None None (Some ''2026-01-15'')
        None db1 = (Inl Unauthenticated, db1)
   \<and> fst (update_announcement ''2025-06-15T12:00:00'' oid1 None None (Some ''2025-05-01'')
        (Some '''') (Some ''ms_jones'') db1) = Inl InvalidDateRange
   \<and> get (set_fields [(''expiration_date'', VStr ''2025-05-01''), (''start_date'', VNull)] doc1)
        ''start_date'' = VNull"
  by code_simp

text \<open>
  Claim C3, amended. Take a caller who passes the credential gate, a well-formed
  identifier of an existing document, and a payload whose supplied dates pass the format
  check and that does not clear the start date. Update fails with \<open>InvalidDateRange\<close>
  exactly when the payload supplies a start date or an expiration date and the effective
  start date is after the effective expiration date (the effective value of a field is the
  supplied one, or else the one of the existing document; a value that is absent, null,
  empty or unparseable is after nothing and before nothing). When it fails so, the
  documents of the collection are unchanged; otherwise the range check passes.
\<close>

theorem update_range_check:
  assumes "verify_teacher username s = None"
    and "ObjectId announcement_id = Some i"
    and "map_of (announcements s) i = Some d"
    and "build_update title message expiration_date start_date = Inr u"
    and "start_date \<noteq> Some []"
  shows "(fst (update_announcement now announcement_id title message expiration_date start_date
                 username s) = Inl InvalidDateRange
          \<longleftrightarrow> (start_date \<noteq> None \<or> truthy (param expiration_date))
              \<and> later (effective start_date (get d ''start_date''))
                      (effective expiration_date (get d ''expiration_date'')))
       \<and> (fst (update_announcement now announcement_id title message expiration_date start_date
                 username s) = Inl InvalidDateRange
          \<longrightarrow> announcements (snd (update_announcement now announcement_id title message
                 expiration_date start_date username s)) = announcements s)"
proof (cases "range_violation u d")
  case True
  have "update_announcement now announcement_id title message expiration_date start_date
          username s = (Inl InvalidDateRange, called (FindOne i) s)"
    by (rule update_announcement_stopped(2) [OF assms(1-4) True])
  with True range_violation_effective [OF assms(4,5), of d] show ?thesis
    by simp
next
  case False
  from update_announcement_reached [OF assms(1-4) False, of now]
  have "fst (update_announcement now announcement_id title message expiration_date start_date
               username s) \<noteq> Inl InvalidDateRange"
    by (simp add: Let_def split: if_splits)
  with False range_violation_effective [OF assms(4,5), of d] show ?thesis
    by simp
qed

theorem update_range_check_witness:
  "verify_teacher (Some ''ms_jones'') db1 = None \<and> ObjectId oid1 = Some oid1
   \<and> map_of (announcements db1) oid1 = Some doc1
   \<and> build_update None None (Some ''2025-05-01'') None
       = Inr [(''expiration_date'', VStr ''2025-05-01'')]
   \<and> later (effective None (get doc1 ''start_date''))
            (effective (Some ''2025-05-01'') (get doc1 ''expiration_date''))
   \<and> fst (update_announcement ''2025-06-15T12:00:00'' oid1 None None (Some ''2025-05-01'') None
          (Some ''ms_jones'') db1) = Inl InvalidDateRange
   \<and> announcements (snd (update_announcement ''2025-06-15T12:00:00'' oid1 None None
          (Some ''2025-05-01'') None (Some ''ms_jones'') db1)) = announcements db1
   \<and> build_update None None (Some ''2025-06-30'') (Some ''2025-06-10'')
       = Inr [(''expiration_date'', VStr ''2025-06-30''), (''start_date'', VStr ''2025-06-10'')]
   \<and> \<not> later (effective (Some ''2025-06-10'') (get doc1 ''start_date''))
            (effective (Some ''2025-06-30'') (get doc1 ''expiration_date''))
   \<and> fst (update_announcement ''2025-06-15T12:00:00'' oid1 None None (Some ''2025-06-30'')
          (Some ''2025-06-10'') (Some ''ms_jones'') db1) \<noteq> Inl InvalidDateRange"
proof -
  have 1: "verify_teacher (Some ''ms_jones'') db1 = None" by code_simp
  have 2: "ObjectId oid1 = Some oid1" by code_simp
  have 3: "map_of (announcements db1) oid1 = Some doc1" by code_simp
  have 4: "build_update None None (Some ''2025-05-01'') None
       = Inr [(''expiration_date'', VStr ''2025-05-01'')]" by code_simp
  have 5: "(None :: string option) \<noteq> Some []" by simp
  have 6: "later (effective None (get doc1 ''start_date''))
            (effective (Some ''2025-05-01'') (get doc1 ''expiration_date''))" by code_simp
  have 7: "truthy (param (Some ''2025-05-01''))" by simp
  have 8: "build_update None None (Some ''2025-06-30'') (Some ''2025-06-10'')
       = Inr [(''expiration_date'', VStr ''2025-06-30''), (''start_date'', VStr ''2025-06-10'')]"
    by code_simp
  have 9: "Some ''2025-06-10'' \<noteq> Some []" by simp
  have 10: "\<not> later (effective (Some ''2025-06-10'') (get doc1 ''start_date''))
            (effective (Some ''2025-06-30'') (get doc1 ''expiration_date''))" by code_simp
  note a = update_range_check [OF 1 2 3 4 5, of "''2025-06-15T12:00:00''"]
  note b = update_range_check [OF 1 2 3 8 9, of "''2025-06-15T12:00:00''"]
  from a 6 7 have a1: "fst (update_announcement ''2025-06-15T12:00:00'' oid1 None None
          (Some ''2025-05-01'') None (Some ''ms_jones'') db1) = Inl InvalidDateRange"
    by blast
  with a have a2: "announcements (snd (update_announcement ''2025-06-15T12:00:00'' oid1 None None
          (Some ''2025-05-01'') None (Some ''ms_jones'') db1)) = announcements db1"
    by blast
  from b 10 have b1: "fst (update_announcement ''2025-06-15T12:00:00'' oid1 None None
          (Some ''2025-06-30'') (Some ''2025-06-10'') (Some ''ms_jones'') db1)
          \<noteq> Inl InvalidDateRange"
    by blast
  from 1 2 3 4 6 8 10 a1 a2 b1 show ?thesis by blast
qed

end
